theory Spec2Isabelle
  imports Main "HOL-Library.AList"
begin

section \<open>Values, strings and dictionaries\<close>

text \<open>
  The controller of \<^verbatim>\<open>browserstack/local.py\<close> passes option values of any type
  (\<^verbatim>\<open>**kwargs: any\<close>) through to the command line. The option values modelled here are
  \<^verbatim>\<open>None\<close>, booleans, integers and strings. A Python \<^verbatim>\<open>str\<close> is represented by
  its UTF-8 bytes, so concatenation and equality are those of the byte lists.
\<close>

datatype pyval = PNone | PBool bool | PInt int | PStr string

text \<open>
  The data that \<^verbatim>\<open>json.loads\<close> returns. A float is kept as the literal that denotes it;
  the controller never compares or prints one.
\<close>

datatype json =
    JNull
  | JBool bool
  | JInt int
  | JFloat string
  | JStr string
  | JArr "json list"
  | JObj "(string \<times> json) list"

text \<open>The exceptions the controller raises or lets through, by class.\<close>

datatype error =
    BrowserStackLocalError json
  | KeyError string
  | TypeError string
  | IndexError
  | UnicodeDecodeError
  | JSONDecodeError
  | UnboundLocalError string
  | OSError string

text \<open>
  Modelled from the spec: \<^verbatim>\<open>BrowserStackLocalError\<close> is declared in
  \<^verbatim>\<open>browserstack/bserrors.py\<close>, which is not among the sources. The spec keeps the
  handshake rejection error apart from the handshake parse error, so the class is taken
  not to derive from \<^verbatim>\<open>ValueError\<close>: the handler of \<^verbatim>\<open>start\<close> does not catch it.
  \<^verbatim>\<open>UnicodeDecodeError\<close> and \<^verbatim>\<open>json.JSONDecodeError\<close> derive from \<^verbatim>\<open>ValueError\<close>;
  \<^verbatim>\<open>KeyError\<close>, \<^verbatim>\<open>IndexError\<close>, \<^verbatim>\<open>TypeError\<close>, \<^verbatim>\<open>UnboundLocalError\<close> and \<^verbatim>\<open>OSError\<close>
  do not. Every class here derives from \<^verbatim>\<open>Exception\<close>.
\<close>

fun is_ValueError :: "error \<Rightarrow> bool" where
  "is_ValueError UnicodeDecodeError = True"
| "is_ValueError JSONDecodeError = True"
| "is_ValueError _ = False"

text \<open>
  \<^verbatim>\<open>str.lower\<close> on the ASCII letters; every other byte is left as it is. The controller
  only compares the result with \<^verbatim>\<open>"true"\<close> and \<^verbatim>\<open>"false"\<close>, and no character outside
  ASCII lowers to one of their letters, so the comparison is decided as in Python.
\<close>

definition lower_char :: "char \<Rightarrow> char" where
  "lower_char c =
     (case map_of (zip ''ABCDEFGHIJKLMNOPQRSTUVWXYZ'' ''abcdefghijklmnopqrstuvwxyz'') c of
        Some d \<Rightarrow> d
      | None \<Rightarrow> c)"

definition lower :: "string \<Rightarrow> string" where
  "lower s = map lower_char s"

text \<open>\<^verbatim>\<open>str(n)\<close> for a natural number: its decimal digits.\<close>

definition digit_char :: "nat \<Rightarrow> char" where
  "digit_char d = ''0123456789'' ! d"

fun str_nat :: "nat \<Rightarrow> string" where
  "str_nat n = (if n < 10 then [digit_char n] else str_nat (n div 10) @ [digit_char (n mod 10)])"

declare str_nat.simps [simp del]

text \<open>\<^verbatim>\<open>str(value)\<close>.\<close>

fun py_str :: "pyval \<Rightarrow> string" where
  "py_str PNone = ''None''"
| "py_str (PBool True) = ''True''"
| "py_str (PBool False) = ''False''"
| "py_str (PInt i) = (if i < 0 then ''-'' @ str_nat (nat (- i)) else str_nat (nat i))"
| "py_str (PStr s) = s"

text \<open>\<^verbatim>\<open>bool(value)\<close>, the truth value that \<^verbatim>\<open>and\<close> and \<^verbatim>\<open>if\<close> test.\<close>

fun truthy :: "pyval \<Rightarrow> bool" where
  "truthy PNone = False"
| "truthy (PBool b) = b"
| "truthy (PInt i) = (i \<noteq> 0)"
| "truthy (PStr s) = (s \<noteq> [])"

text \<open>
  A \<^verbatim>\<open>dict\<close> keeps its keys in insertion order, and the command is built in that order:
  it is an association list with distinct keys. \<^verbatim>\<open>d[k] = v\<close> is \<^const>\<open>AList.update\<close>
  (in place for a key that is present, at the end otherwise), \<^verbatim>\<open>del d[k]\<close> is
  \<^const>\<open>AList.delete\<close>, \<^verbatim>\<open>k in d\<close> and \<^verbatim>\<open>d.get(k)\<close> read \<^const>\<open>map_of\<close>.
\<close>

type_synonym 'v dict = "(string \<times> 'v) list"

section \<open>The singleton and its environment\<close>

record local_singleton =
  initialized :: bool
  key :: pyval
  options :: "pyval dict"
  local_logfile_path :: pyval
  binary_path :: pyval
  pid :: "json option"
  proc :: "pyval list option"

text \<open>
  \<^verbatim>\<open>pid\<close> is \<^const>\<open>None\<close> while the attribute does not exist (\<^verbatim>\<open>hasattr\<close> is false).
  \<^verbatim>\<open>proc\<close> holds the command of the last child process that \<^verbatim>\<open>start\<close> opened.

  What the controller asks of the host and of its libraries is a parameter of every
  operation:
  \<^item> \<^verbatim>\<open>get_binary\<close>: the result of \<^verbatim>\<open>LocalBinary().get_binary()\<close>;
  \<^item> \<^verbatim>\<open>pkg_version\<close>: the version in the package metadata, if the package is installed;
  \<^item> \<^verbatim>\<open>popen\<close>: \<^verbatim>\<open>subprocess.Popen(cmd, ...)\<close>, the exception it raises if any;
  \<^item> \<^verbatim>\<open>communicate\<close>: \<^verbatim>\<open>communicate()\<close> on the child opened with that command: the
    bytes of stdout and stderr, or the exception it raises;
  \<^item> \<^verbatim>\<open>decode\<close>: \<^verbatim>\<open>bytes.decode()\<close>, \<^const>\<open>None\<close> for \<^verbatim>\<open>UnicodeDecodeError\<close>;
  \<^item> \<^verbatim>\<open>loads\<close>: \<^verbatim>\<open>json.loads\<close>, \<^const>\<open>None\<close> for \<^verbatim>\<open>JSONDecodeError\<close>;
  \<^item> \<^verbatim>\<open>pid_exists\<close>: \<^verbatim>\<open>psutil.pid_exists\<close>, which may raise on a value that is no process
    identifier.
\<close>

text \<open>
  Modelled from the spec: \<^verbatim>\<open>LocalBinary\<close> (\<^verbatim>\<open>browserstack/local_binary.py\<close>) is not
  among the sources. The spec describes its one operation as a black box that, given the
  configuration, returns the path of an executable or fails: \<^verbatim>\<open>get_binary\<close> is that result.
\<close>

record world =
  get_binary :: "error + string"
  pkg_version :: "string option"
  popen :: "pyval list \<Rightarrow> error option"
  communicate :: "pyval list \<Rightarrow> error + (string \<times> string)"
  decode :: "string \<Rightarrow> string option"
  loads :: "string \<Rightarrow> json option"
  pid_exists :: "json \<Rightarrow> error + bool"

text \<open>
  What an operation does to the host, in order: a child process opened with a command, a
  shell command run by \<^verbatim>\<open>os.system\<close>, a message logged at error severity (with the
  exception formatted into it, if any).
\<close>

datatype event =
    Spawn "pyval list"
  | Shell string
  | LogError string "error option"

section \<open>Construction\<close>

text \<open>\<^verbatim>\<open>os.path.join(a, b)\<close> of \<^verbatim>\<open>posixpath\<close>, for a relative \<^verbatim>\<open>b\<close>.\<close>

definition path_join :: "string \<Rightarrow> string \<Rightarrow> string" where
  "path_join a b = (if a = [] \<or> last a = CHR ''/'' then a @ b else a @ ''/'' @ b)"

text \<open>
  \<^verbatim>\<open>__new__\<close>: the class attribute \<^verbatim>\<open>_instance\<close> is created once, not yet initialised.
  The fields of a fresh instance do not exist in Python before \<^verbatim>\<open>__init__\<close> has run;
  here they hold \<^const>\<open>PNone\<close> and the flag says so.
\<close>

definition new :: "local_singleton option \<Rightarrow> local_singleton" where
  "new instance =
     (case instance of
        None \<Rightarrow> \<lparr>initialized = False, key = PNone, options = [], local_logfile_path = PNone,
                 binary_path = PNone, pid = None, proc = None\<rparr>
      | Some self \<Rightarrow> self)"

text \<open>
  \<^verbatim>\<open>__init__(self, key, binary_path, **kwargs)\<close>, with the environment \<^verbatim>\<open>os.environ\<close>
  and the directory \<^verbatim>\<open>os.getcwd()\<close>.
\<close>

definition init ::
  "(string \<rightharpoonup> string) \<Rightarrow> string \<Rightarrow> local_singleton \<Rightarrow> pyval \<Rightarrow> pyval \<Rightarrow> pyval dict
     \<Rightarrow> local_singleton" where
  "init environ cwd self k bp kwargs =
     (if \<not> initialized self then
        self\<lparr>key := (case environ ''BROWSERSTACK_ACCESS_KEY'' of Some v \<Rightarrow> PStr v | None \<Rightarrow> k),
             options := kwargs,
             local_logfile_path := PStr (path_join cwd ''local.log''),
             binary_path := bp,
             initialized := True\<rparr>
      else self)"

text \<open>\<^verbatim>\<open>LocalSingleton(key, binary_path, **kwargs)\<close>: \<^verbatim>\<open>__new__\<close>, then \<^verbatim>\<open>__init__\<close>.\<close>

definition LocalSingleton ::
  "(string \<rightharpoonup> string) \<Rightarrow> string \<Rightarrow> local_singleton option \<Rightarrow> pyval \<Rightarrow> pyval \<Rightarrow> pyval dict
     \<Rightarrow> local_singleton" where
  "LocalSingleton environ cwd instance k bp kwargs = init environ cwd (new instance) k bp kwargs"

section \<open>The argument builder and the commands\<close>

text \<open>\<^verbatim>\<open>__xstr(key, value)\<close>. The last branch appends the value itself.\<close>

definition xstr :: "string option \<Rightarrow> pyval \<Rightarrow> pyval list" where
  "xstr k v =
     (case k of
        None \<Rightarrow> [PStr '''']
      | Some k' \<Rightarrow>
          if lower (py_str v) = ''true'' then [PStr (''-'' @ k')]
          else if lower (py_str v) = ''false'' then [PStr '''']
          else [PStr (''-'' @ k'), v])"

definition get_package_version :: "world \<Rightarrow> string" where
  "get_package_version w = (case pkg_version w of None \<Rightarrow> ''None'' | Some v \<Rightarrow> v)"

text \<open>The loop of \<^verbatim>\<open>_generate_cmd\<close> over \<^verbatim>\<open>self.options.keys()\<close>.\<close>

fun option_tokens :: "pyval dict \<Rightarrow> string list \<Rightarrow> pyval list \<Rightarrow> pyval list" where
  "option_tokens opts [] cmd = cmd"
| "option_tokens opts (o' # os) cmd =
     option_tokens opts os
       (case map_of opts o' of
          None \<Rightarrow> cmd
        | Some PNone \<Rightarrow> cmd
        | Some v \<Rightarrow> cmd @ xstr (Some o') v)"

definition generate_cmd :: "world \<Rightarrow> local_singleton \<Rightarrow> pyval list" where
  "generate_cmd w self =
     option_tokens (options self) (map fst (options self))
       [binary_path self, PStr ''-d'', PStr ''start'', PStr ''-logFile'', local_logfile_path self,
        PStr ''-k'', key self, PStr ''--source'', PStr (''python:'' @ get_package_version w)]"

text \<open>\<^verbatim>\<open>cmd[2] = "stop"\<close> raises \<^verbatim>\<open>IndexError\<close> on a list shorter than three.\<close>

definition generate_stop_cmd :: "world \<Rightarrow> local_singleton \<Rightarrow> error + pyval list" where
  "generate_stop_cmd w self =
     (let cmd = generate_cmd w self
      in if 2 < length cmd then Inr (cmd[2 := PStr ''stop'']) else Inl IndexError)"

section \<open>start\<close>

text \<open>An operation returns what it raised or returned, the singleton as it left it, and
  what it did to the host.\<close>

type_synonym outcome = "(error + unit) \<times> local_singleton \<times> event list"

text \<open>Lines 111-112: \<^verbatim>\<open>for k, v in kwargs.items(): self.options[k] = v\<close>.\<close>

definition merge_kwargs :: "pyval dict \<Rightarrow> pyval dict \<Rightarrow> pyval dict" where
  "merge_kwargs opts kwargs = fold (\<lambda>(k, v) d. AList.update k v d) kwargs opts"

text \<open>Lines 114-116.\<close>

definition take_key :: "local_singleton \<Rightarrow> local_singleton" where
  "take_key self =
     (case map_of (options self) ''key'' of
        Some v \<Rightarrow> self\<lparr>key := v, options := AList.delete ''key'' (options self)\<rparr>
      | None \<Rightarrow> self)"

text \<open>Lines 118-122: the resolver is asked only when no \<^verbatim>\<open>binarypath\<close> option is stored.\<close>

definition take_binarypath :: "world \<Rightarrow> local_singleton \<Rightarrow> error + local_singleton" where
  "take_binarypath w self =
     (case map_of (options self) ''binarypath'' of
        Some v \<Rightarrow>
          Inr (self\<lparr>binary_path := v, options := AList.delete ''binarypath'' (options self)\<rparr>)
      | None \<Rightarrow>
          (case get_binary w of
             Inl e \<Rightarrow> Inl e
           | Inr p \<Rightarrow> Inr (self\<lparr>binary_path := PStr p\<rparr>)))"

text \<open>Lines 124-126.\<close>

definition take_logfile :: "local_singleton \<Rightarrow> local_singleton" where
  "take_logfile self =
     (case map_of (options self) ''logfile'' of
        Some v \<Rightarrow>
          self\<lparr>local_logfile_path := v, options := AList.delete ''logfile'' (options self)\<rparr>
      | None \<Rightarrow> self)"

text \<open>Line 128: \<^verbatim>\<open>"onlyCommand" in kwargs and kwargs["onlyCommand"]\<close>, on the keyword
  arguments of this call.\<close>

definition only_command :: "pyval dict \<Rightarrow> bool" where
  "only_command kwargs =
     (case map_of kwargs ''onlyCommand'' of None \<Rightarrow> False | Some v \<Rightarrow> truthy v)"

text \<open>Lines 131-132.\<close>

definition drop_source :: "local_singleton \<Rightarrow> local_singleton" where
  "drop_source self =
     (case map_of (options self) ''source'' of
        Some v \<Rightarrow> self\<lparr>options := AList.delete ''source'' (options self)\<rparr>
      | None \<Rightarrow> self)"

text \<open>\<^verbatim>\<open>type(v).__name__\<close>, which a \<^verbatim>\<open>TypeError\<close> reports.\<close>

fun type_name :: "pyval \<Rightarrow> string" where
  "type_name PNone = ''NoneType''"
| "type_name (PBool b) = ''bool''"
| "type_name (PInt i) = ''int''"
| "type_name (PStr s) = ''str''"

fun json_type_name :: "json \<Rightarrow> string" where
  "json_type_name JNull = ''NoneType''"
| "json_type_name (JBool b) = ''bool''"
| "json_type_name (JInt i) = ''int''"
| "json_type_name (JFloat f) = ''float''"
| "json_type_name (JStr s) = ''str''"
| "json_type_name (JArr xs) = ''list''"
| "json_type_name (JObj d) = ''dict''"

text \<open>\<^verbatim>\<open>data[k]\<close> for a string \<^verbatim>\<open>k\<close>: only a \<^verbatim>\<open>dict\<close> can be read by such a key.\<close>

fun subscript :: "json \<Rightarrow> string \<Rightarrow> error + json" where
  "subscript (JObj d) k = (case map_of d k of None \<Rightarrow> Inl (KeyError k) | Some v \<Rightarrow> Inr v)"
| "subscript v k = Inl (TypeError (json_type_name v))"

text \<open>Line 139: the concatenation raises \<^verbatim>\<open>TypeError\<close> unless the path is a
  \<^verbatim>\<open>str\<close>.\<close>

definition truncate_cmd :: "pyval \<Rightarrow> error + string" where
  \<open>truncate_cmd path =
     (case path of
        PStr p \<Rightarrow> Inr (''echo "" > "'' @ p @ ''"'')
      | v \<Rightarrow> Inl (TypeError (type_name v)))\<close>

text \<open>
  Lines 141-151, the body of the \<^verbatim>\<open>try\<close>: the local \<^verbatim>\<open>output_string\<close> if it was bound,
  and the singleton with its \<^verbatim>\<open>pid\<close> recorded or the exception raised.
\<close>

definition try_body ::
  "world \<Rightarrow> local_singleton \<Rightarrow> string \<Rightarrow> string \<Rightarrow> string option \<times> (error + local_singleton)" where
  "try_body w self out err =
     (case decode w (if out \<noteq> [] then out else err) of
        None \<Rightarrow> (None, Inl UnicodeDecodeError)
      | Some output_string \<Rightarrow>
          (Some output_string,
           case loads w output_string of
             None \<Rightarrow> Inl JSONDecodeError
           | Some data \<Rightarrow>
               (case subscript data ''state'' of
                  Inl e \<Rightarrow> Inl e
                | Inr state \<Rightarrow>
                    if state \<noteq> JStr ''connected'' then
                      (case subscript data ''message'' of
                         Inl e \<Rightarrow> Inl e
                       | Inr m \<Rightarrow>
                           (case subscript m ''message'' of
                              Inl e \<Rightarrow> Inl e
                            | Inr text \<Rightarrow> Inl (BrowserStackLocalError text)))
                    else
                      (case subscript data ''pid'' of
                         Inl e \<Rightarrow> Inl e
                       | Inr p \<Rightarrow> Inr (self\<lparr>pid := Some p\<rparr>)))))"

text \<open>
  Lines 140-160: the \<^verbatim>\<open>try\<close> with its handler \<^verbatim>\<open>except ValueError\<close>. The handler
  reads \<^verbatim>\<open>output_string\<close>, which is unbound when \<^verbatim>\<open>decode\<close> raised.
\<close>

definition handshake :: "world \<Rightarrow> local_singleton \<Rightarrow> string \<Rightarrow> string \<Rightarrow> outcome" where
  \<open>handshake w self out err =
     (case try_body w self out err of
        (_, Inr self') \<Rightarrow> (Inr (), self', [])
      | (bound, Inl e) \<Rightarrow>
          if is_ValueError e then
            (case bound of
               None \<Rightarrow> (Inl (UnboundLocalError ''output_string''), self, [])
             | Some output_string \<Rightarrow>
                 (Inl (BrowserStackLocalError
                        (JStr (''Error parsing JSON output from daemon. Raw String = "''
                               @ output_string @ ''"''))),
                  self,
                  [LogError (''BinaryOutputParseError: Raw String = '' @ [CHR 0x27]
                             @ output_string @ [CHR 0x27]) None]))
          else (Inl e, self, []))\<close>

text \<open>Lines 134-160.\<close>

definition launch :: "world \<Rightarrow> local_singleton \<Rightarrow> outcome" where
  "launch w self =
     (let cmd = generate_cmd w self
      in case popen w cmd of
           Some e \<Rightarrow> (Inl e, self, [])
         | None \<Rightarrow>
             (let self1 = self\<lparr>proc := Some cmd\<rparr>
              in case communicate w cmd of
                   Inl e \<Rightarrow> (Inl e, self1, [Spawn cmd])
                 | Inr (out, err) \<Rightarrow>
                     (case truncate_cmd (local_logfile_path self1) of
                        Inl e \<Rightarrow> (Inl e, self1, [Spawn cmd])
                      | Inr sh \<Rightarrow>
                          (case handshake w self1 out err of
                             (r, self2, evs) \<Rightarrow> (r, self2, [Spawn cmd, Shell sh] @ evs)))))"

text \<open>\<^verbatim>\<open>start(**kwargs)\<close>.\<close>

definition start :: "world \<Rightarrow> local_singleton \<Rightarrow> pyval dict \<Rightarrow> outcome" where
  "start w self kwargs =
     (let self1 = take_key (self\<lparr>options := merge_kwargs (options self) kwargs\<rparr>)
      in case take_binarypath w self1 of
           Inl e \<Rightarrow> (Inl e, self1, [])
         | Inr self2 \<Rightarrow>
             (let self3 = take_logfile self2
              in if only_command kwargs then (Inr (), self3, [])
                 else launch w (drop_source self3)))"

section \<open>is_running and stop\<close>

text \<open>\<^verbatim>\<open>hasattr(self, "pid") and psutil.pid_exists(self.pid)\<close>.\<close>

definition is_running :: "world \<Rightarrow> local_singleton \<Rightarrow> error + bool" where
  "is_running w self = (case pid self of None \<Rightarrow> Inr False | Some p \<Rightarrow> pid_exists w p)"

text \<open>Lines 172-177, the body of the \<^verbatim>\<open>try\<close> of \<^verbatim>\<open>stop\<close>.\<close>

definition stop_body :: "world \<Rightarrow> local_singleton \<Rightarrow> (error + unit) \<times> event list" where
  "stop_body w self =
     (case generate_stop_cmd w self of
        Inl e \<Rightarrow> (Inl e, [])
      | Inr cmd \<Rightarrow>
          (case popen w cmd of
             Some e \<Rightarrow> (Inl e, [])
           | None \<Rightarrow>
               (case communicate w cmd of
                  Inl e \<Rightarrow> (Inl e, [Spawn cmd])
                | Inr (out, err) \<Rightarrow> (Inr (), [Spawn cmd]))))"

text \<open>\<^verbatim>\<open>stop()\<close>: \<^verbatim>\<open>except Exception\<close> catches every class of \<^typ>\<open>error\<close>.\<close>

definition stop :: "world \<Rightarrow> local_singleton \<Rightarrow> outcome" where
  "stop w self =
     (case stop_body w self of
        (Inl e, evs) \<Rightarrow>
          (Inr (), self, evs @ [LogError ''Error stopping BrowserStack Local: '' (Some e)])
      | (Inr u, evs) \<Rightarrow> (Inr (), self, evs))"

section \<open>A host to run the controller on\<close>

text \<open>
  The operations above hold for every \<^typ>\<open>world\<close>. To run them on concrete inputs the
  library calls are given the behaviour of the Python standard library on the host:
  \<^verbatim>\<open>bytes.decode()\<close> accepts exactly the well-formed UTF-8 byte sequences (a \<^verbatim>\<open>str\<close> is
  kept as its UTF-8 bytes, so decoding returns the bytes), and \<^verbatim>\<open>json.loads\<close> accepts the
  JSON grammar of the \<^verbatim>\<open>json\<close> module, with \<^verbatim>\<open>NaN\<close>, \<^verbatim>\<open>Infinity\<close> and
  \<^verbatim>\<open>-Infinity\<close>.
\<close>

definition byte :: "char \<Rightarrow> nat" where
  "byte c = of_char c"

definition continuation :: "char \<Rightarrow> bool" where
  "continuation c = (0x80 \<le> byte c \<and> byte c \<le> 0xBF)"

fun utf8_valid :: "string \<Rightarrow> bool" where
  "utf8_valid [] = True"
| "utf8_valid (c # cs) =
     (let b = byte c in
      if b < 0x80 then utf8_valid cs
      else if 0xC2 \<le> b \<and> b \<le> 0xDF then
        (case cs of c1 # r \<Rightarrow> continuation c1 \<and> utf8_valid r | _ \<Rightarrow> False)
      else if 0xE0 \<le> b \<and> b \<le> 0xEF then
        (case cs of
           c1 # c2 # r \<Rightarrow>
             continuation c1 \<and> continuation c2
             \<and> (if b = 0xE0 then 0xA0 \<le> byte c1 else True)
             \<and> (if b = 0xED then byte c1 \<le> 0x9F else True)
             \<and> utf8_valid r
         | _ \<Rightarrow> False)
      else if 0xF0 \<le> b \<and> b \<le> 0xF4 then
        (case cs of
           c1 # c2 # c3 # r \<Rightarrow>
             continuation c1 \<and> continuation c2 \<and> continuation c3
             \<and> (if b = 0xF0 then 0x90 \<le> byte c1 else True)
             \<and> (if b = 0xF4 then byte c1 \<le> 0x8F else True)
             \<and> utf8_valid r
         | _ \<Rightarrow> False)
      else False)"

definition utf8_decode :: "string \<Rightarrow> string option" where
  "utf8_decode b = (if utf8_valid b then Some b else None)"

subsection \<open>Scanning JSON strings, numbers and literals\<close>

definition hex_digit :: "char \<Rightarrow> nat option" where
  "hex_digit c =
     map_of (zip ''0123456789abcdefABCDEF''
                 [0, 1, 2, 3, 4, 5, 6, 7, 8, 9, 10, 11, 12, 13, 14, 15, 10, 11, 12, 13, 14, 15]) c"

definition hex4 :: "string \<Rightarrow> nat option" where
  "hex4 s =
     (case map hex_digit s of
        [Some a, Some b, Some c, Some d] \<Rightarrow> Some (((a * 16 + b) * 16 + c) * 16 + d)
      | _ \<Rightarrow> None)"

text \<open>The bytes of a code point; a lone surrogate gets the three bytes of the same
  scheme, so that distinct strings keep distinct bytes.\<close>

definition utf8_encode :: "nat \<Rightarrow> string" where
  "utf8_encode u =
     (if u < 0x80 then [char_of u]
      else if u < 0x800 then [char_of (0xC0 + u div 64), char_of (0x80 + u mod 64)]
      else if u < 0x10000 then
        [char_of (0xE0 + u div 4096), char_of (0x80 + u div 64 mod 64), char_of (0x80 + u mod 64)]
      else
        [char_of (0xF0 + u div 262144), char_of (0x80 + u div 4096 mod 64),
         char_of (0x80 + u div 64 mod 64), char_of (0x80 + u mod 64)])"

definition escapes :: "(char \<times> char) list" where
  "escapes =
     [(CHR 0x22, CHR 0x22), (CHR 0x5C, CHR 0x5C), (CHR ''/'', CHR ''/''), (CHR ''b'', CHR 0x08),
      (CHR ''f'', CHR 0x0C), (CHR ''n'', CHR 0x0A), (CHR ''r'', CHR 0x0D), (CHR ''t'', CHR 0x09)]"

text \<open>A high surrogate \<^verbatim>\<open>u\<close> followed by the escape of a low one is one code point.\<close>

definition surrogate_pair :: "nat \<Rightarrow> string \<Rightarrow> nat option" where
  "surrogate_pair u s =
     (if 0xD800 \<le> u \<and> u \<le> 0xDBFF \<and> take 2 s = [CHR 0x5C, CHR ''u''] then
        (case hex4 (take 4 (drop 2 s)) of
           None \<Rightarrow> None
         | Some u2 \<Rightarrow>
             if 0xDC00 \<le> u2 \<and> u2 \<le> 0xDFFF
             then Some (0x10000 + (u - 0xD800) * 0x400 + (u2 - 0xDC00))
             else None)
      else None)"

text \<open>The text after an opening quote: the string it holds and how many characters it
  takes, the closing quote included.\<close>

function scanstring :: "string \<Rightarrow> (string \<times> nat) option" where
  "scanstring [] = None"
| "scanstring (c # cs) =
     (if c = CHR 0x22 then Some ([], 1)
      else if c = CHR 0x5C then
        (case cs of
           [] \<Rightarrow> None
         | e # r \<Rightarrow>
             if e = CHR ''u'' then
               (case hex4 (take 4 r) of
                  None \<Rightarrow> None
                | Some u \<Rightarrow>
                    (case surrogate_pair u (drop 4 r) of
                       Some cp \<Rightarrow>
                         map_option (\<lambda>(s, n). (utf8_encode cp @ s, n + 12))
                           (scanstring (drop 10 r))
                     | None \<Rightarrow>
                         map_option (\<lambda>(s, n). (utf8_encode u @ s, n + 6))
                           (scanstring (drop 4 r))))
             else
               (case map_of escapes e of
                  None \<Rightarrow> None
                | Some ch \<Rightarrow> map_option (\<lambda>(s, n). (ch # s, n + 2)) (scanstring r)))
      else if byte c < 0x20 then None
      else map_option (\<lambda>(s, n). (c # s, n + 1)) (scanstring cs))"
  by pat_completeness auto
termination
  by (relation "measure length") auto

definition is_digit :: "char \<Rightarrow> bool" where
  "is_digit c = (c \<in> set ''0123456789'')"

definition int_of_digits :: "string \<Rightarrow> int" where
  "int_of_digits ds = foldl (\<lambda>a c. 10 * a + int (byte c) - 48) 0 ds"

text \<open>The number at the head of the text, by the expression
  \<^verbatim>\<open>(-?(?:0|[1-9][0-9]*))(\.[0-9]+)?([eE][-+]?[0-9]+)?\<close>, and its length.\<close>

definition scan_number :: "string \<Rightarrow> (json \<times> nat) option" where
  "scan_number s =
     (let sign = (if take 1 s = ''-'' then ''-'' else []);
          s1 = drop (length sign) s;
          ip = (if take 1 s1 = ''0'' then ''0'' else takeWhile is_digit s1);
          s2 = drop (length ip) s1;
          fd = (if take 1 s2 = ''.'' then takeWhile is_digit (drop 1 s2) else []);
          frac = (if fd = [] then [] else ''.'' @ fd);
          s3 = drop (length frac) s2;
          es = (if take 1 (drop 1 s3) = ''+'' \<or> take 1 (drop 1 s3) = ''-''
                then take 1 (drop 1 s3) else []);
          ed = (if take 1 s3 = ''e'' \<or> take 1 s3 = ''E''
                then takeWhile is_digit (drop (1 + length es) s3) else []);
          ex = (if ed = [] then [] else take 1 s3 @ es @ ed)
      in if ip = [] then None
         else if frac = [] \<and> ex = [] then
           Some (JInt (if sign = [] then int_of_digits ip else - int_of_digits ip),
                 length sign + length ip)
         else Some (JFloat (sign @ ip @ frac @ ex),
                    length sign + length ip + length frac + length ex))"

definition scan_value :: "string \<Rightarrow> (json \<times> nat) option" where
  "scan_value s =
     (if take 1 s = [CHR 0x22] then map_option (\<lambda>(x, n). (JStr x, n + 1)) (scanstring (drop 1 s))
      else if take 4 s = ''null'' then Some (JNull, 4)
      else if take 4 s = ''true'' then Some (JBool True, 4)
      else if take 5 s = ''false'' then Some (JBool False, 5)
      else
        (case scan_number s of
           Some r \<Rightarrow> Some r
         | None \<Rightarrow>
             if take 3 s = ''NaN'' then Some (JFloat ''NaN'', 3)
             else if take 8 s = ''Infinity'' then Some (JFloat ''Infinity'', 8)
             else if take 9 s = ''-Infinity'' then Some (JFloat ''-Infinity'', 9)
             else None))"

subsection \<open>Tokens and the structure over them\<close>

datatype token = TLBrace | TRBrace | TLBrack | TRBrack | TColon | TComma | TVal json

definition punctuation :: "(char \<times> token) list" where
  "punctuation =
     [(CHR ''{'', TLBrace), (CHR ''}'', TRBrace), (CHR ''['', TLBrack), (CHR '']'', TRBrack),
      (CHR '':'', TColon), (CHR '','', TComma)]"

function tokens :: "string \<Rightarrow> token list option" where
  "tokens [] = Some []"
| "tokens (c # cs) =
     (if c \<in> set [CHR '' '', CHR 0x09, CHR 0x0A, CHR 0x0D] then tokens cs
      else
        (case map_of punctuation c of
           Some t \<Rightarrow> map_option (Cons t) (tokens cs)
         | None \<Rightarrow>
             (case scan_value (c # cs) of
                None \<Rightarrow> None
              | Some (v, n) \<Rightarrow> map_option (Cons (TVal v)) (tokens (drop (n - 1) cs)))))"
  by pat_completeness auto
termination
  by (relation "measure length") auto

text \<open>
  The containers that are open, innermost first: an array with its elements so far (last
  first), an object waiting for a key, an object waiting for the value of a key. A
  repeated key keeps its place and takes the later value, as a \<^verbatim>\<open>dict\<close> does.
\<close>

datatype frame = InArr "json list" | InObj "json dict" | InKey "json dict" string

datatype phase = WantValue | WantValueOrEnd | WantKey | WantKeyOrEnd | WantColon | Have json

definition open_value :: "frame list \<Rightarrow> token \<Rightarrow> (phase \<times> frame list) option" where
  "open_value st t =
     (case t of
        TVal v \<Rightarrow> Some (Have v, st)
      | TLBrack \<Rightarrow> Some (WantValueOrEnd, InArr [] # st)
      | TLBrace \<Rightarrow> Some (WantKeyOrEnd, InObj [] # st)
      | _ \<Rightarrow> None)"

definition read_key :: "frame list \<Rightarrow> token \<Rightarrow> (phase \<times> frame list) option" where
  "read_key st t =
     (case st of
        InObj d # st' \<Rightarrow> (case t of TVal (JStr k) \<Rightarrow> Some (WantColon, InKey d k # st') | _ \<Rightarrow> None)
      | _ \<Rightarrow> None)"

definition after_value :: "json \<Rightarrow> frame list \<Rightarrow> token \<Rightarrow> (phase \<times> frame list) option" where
  "after_value v st t =
     (case st of
        InArr acc # st' \<Rightarrow>
          (case t of
             TComma \<Rightarrow> Some (WantValue, InArr (v # acc) # st')
           | TRBrack \<Rightarrow> Some (Have (JArr (rev (v # acc))), st')
           | _ \<Rightarrow> None)
      | InKey d k # st' \<Rightarrow>
          (case t of
             TComma \<Rightarrow> Some (WantKey, InObj (AList.update k v d) # st')
           | TRBrace \<Rightarrow> Some (Have (JObj (AList.update k v d)), st')
           | _ \<Rightarrow> None)
      | _ \<Rightarrow> None)"

fun step :: "phase \<times> frame list \<Rightarrow> token \<Rightarrow> (phase \<times> frame list) option" where
  "step (Have v, st) t = after_value v st t"
| "step (WantColon, st) t = (if t = TColon then Some (WantValue, st) else None)"
| "step (WantKey, st) t = read_key st t"
| "step (WantKeyOrEnd, st) t =
     (case st of
        InObj d # st' \<Rightarrow> if t = TRBrace then Some (Have (JObj d), st') else read_key st t
      | _ \<Rightarrow> None)"
| "step (WantValue, st) t = open_value st t"
| "step (WantValueOrEnd, st) t =
     (case st of
        InArr acc # st' \<Rightarrow> if t = TRBrack then Some (Have (JArr (rev acc)), st') else open_value st t
      | _ \<Rightarrow> None)"

fun run :: "phase \<times> frame list \<Rightarrow> token list \<Rightarrow> json option" where
  "run s [] = (case s of (Have v, []) \<Rightarrow> Some v | _ \<Rightarrow> None)"
| "run s (t # ts) = (case step s t of None \<Rightarrow> None | Some s' \<Rightarrow> run s' ts)"

definition json_loads :: "string \<Rightarrow> json option" where
  "json_loads s = (case tokens s of None \<Rightarrow> None | Some ts \<Rightarrow> run (WantValue, []) ts)"

subsection \<open>The host\<close>

text \<open>\<^verbatim>\<open>psutil.pid_exists\<close> on a host whose live processes are \<^verbatim>\<open>live\<close>: a number is
  looked up (\<^verbatim>\<open>True\<close> and \<^verbatim>\<open>False\<close> are 1 and 0), anything else is a \<^verbatim>\<open>TypeError\<close>.\<close>

definition host_pid_exists :: "int list \<Rightarrow> json \<Rightarrow> error + bool" where
  "host_pid_exists live p =
     (case p of
        JInt i \<Rightarrow> Inr (i \<in> set live)
      | JBool b \<Rightarrow> Inr ((if b then 1 else 0) \<in> set live)
      | v \<Rightarrow> Inl (TypeError (json_type_name v)))"

text \<open>A host whose resolver finds the binary, on which every child process opens, and
  whose daemon answers \<^verbatim>\<open>out\<close> on stdout and \<^verbatim>\<open>err\<close> on stderr.\<close>

definition host :: "string \<Rightarrow> string \<Rightarrow> int list \<Rightarrow> world" where
  "host out err live =
     \<lparr>get_binary = Inr ''/opt/BrowserStackLocal'',
      pkg_version = Some ''1.0.0'',
      popen = (\<lambda>cmd. None),
      communicate = (\<lambda>cmd. Inr (out, err)),
      decode = utf8_decode,
      loads = json_loads,
      pid_exists = host_pid_exists live\<rparr>"

text \<open>The first construction, with no variable in the environment and a key as argument.\<close>

definition fresh :: local_singleton where
  "fresh = LocalSingleton Map.empty ''/home/user'' None (PStr ''accesskey'') PNone []"

text \<open>The two handshakes of the daemon that the tests of the controller use.\<close>

definition connected_4321 :: string where
  \<open>connected_4321 = ''{"state":"connected","pid":4321}''\<close>

definition rejected_bad_key :: string where
  \<open>rejected_bad_key = ''{"state":"error","message":{"message":"bad key"}}''\<close>

text \<open>Two handshakes that decode and report a state that is not \<^verbatim>\<open>connected\<close>: one with
  no message, one whose message is a string and not an object.\<close>

definition rejected_no_message :: string where
  \<open>rejected_no_message = ''{"state":"disconnected"}''\<close>

definition rejected_flat_message :: string where
  \<open>rejected_flat_message = ''{"state":"error","message":"bad key"}''\<close>

text \<open>The singleton after one start that the daemon answered with the first of them.\<close>

definition started :: local_singleton where
  "started = fst (snd (start (host connected_4321 [] [4321]) fresh []))"

text \<open>A sequence of \<^verbatim>\<open>start\<close> calls, each on its own host and with its own keyword
  arguments, whatever each of them returns or raises.\<close>

fun starts :: "local_singleton \<Rightarrow> (world \<times> pyval dict) list \<Rightarrow> local_singleton" where
  "starts self [] = self"
| "starts self ((w, kwargs) # calls) = starts (fst (snd (start w self kwargs))) calls"

text \<open>The command that a start of the fresh singleton opens on that host, and the shell
  command that truncates its log file.\<close>

definition start_cmd :: "pyval list" where
  "start_cmd =
     [PStr ''/opt/BrowserStackLocal'', PStr ''-d'', PStr ''start'', PStr ''-logFile'',
      PStr ''/home/user/local.log'', PStr ''-k'', PStr ''accesskey'', PStr ''--source'',
      PStr ''python:1.0.0'']"

definition truncate_log :: string where
  \<open>truncate_log = ''echo "" > "/home/user/local.log"''\<close>

section \<open>Properties of the commands\<close>

text \<open>The loop of \<^verbatim>\<open>_generate_cmd\<close> only appends to the command it starts from.\<close>

lemma option_tokens_append:
  "option_tokens opts ks cmd = cmd @ option_tokens opts ks []"
proof (induction ks arbitrary: cmd)
  case Nil
  show ?case by simp
next
  case (Cons k ks)
  define x where
    "x = (case map_of opts k of None \<Rightarrow> [] | Some PNone \<Rightarrow> [] | Some v \<Rightarrow> xstr (Some k) v)"
  have unfold: "option_tokens opts (k # ks) c = option_tokens opts ks (c @ x)" for c
    by (simp add: x_def split: option.splits pyval.splits)
  have "option_tokens opts (k # ks) cmd = (cmd @ x) @ option_tokens opts ks []"
    unfolding unfold by (rule Cons.IH)
  moreover have "option_tokens opts (k # ks) [] = x @ option_tokens opts ks []"
    unfolding unfold using Cons.IH [of x] by simp
  ultimately show ?case by simp
qed

lemma generate_cmd_prefix:
  "generate_cmd w self =
     [binary_path self, PStr ''-d'', PStr ''start'', PStr ''-logFile'', local_logfile_path self,
      PStr ''-k'', key self, PStr ''--source'', PStr (''python:'' @ get_package_version w)]
     @ option_tokens (options self) (map fst (options self)) []"
  unfolding generate_cmd_def by (rule option_tokens_append)

text \<open>
  C5. For every singleton state the stop command is the start command with only the token
  at index 2 changed from \<^verbatim>\<open>"start"\<close> to \<^verbatim>\<open>"stop"\<close>: the two tokens before it and all
  the tokens after it are the same, in the same order, and \<^verbatim>\<open>_generate_stop_cmd\<close> does not
  raise.
\<close>

theorem stop_cmd_is_start_cmd_with_stop:
  "generate_stop_cmd w self
     = Inr (take 2 (generate_cmd w self) @ [PStr ''stop''] @ drop 3 (generate_cmd w self))
   \<and> generate_cmd w self
     = take 2 (generate_cmd w self) @ [PStr ''start''] @ drop 3 (generate_cmd w self)"
  by (simp add: generate_stop_cmd_def generate_cmd_prefix)

section \<open>Properties of the argument builder\<close>

lemmas xstr_eval = xstr_def lower_def lower_char_def str_nat.simps digit_char_def

text \<open>
  C1, as stated, fails, at two values. For \<^verbatim>\<open>False\<close>, whose string form lowers to
  \<^verbatim>\<open>"false"\<close>, the builder returns one token, the empty string, not zero tokens: the
  literal \<^verbatim>\<open>[""]\<close> is the one it returns for an absent key too. For \<^verbatim>\<open>8080\<close> the second
  token is the integer itself, not its string form: the last branch returns the value without
  converting it, against the docstring (\<^verbatim>\<open>Stringify the key-value pair\<close>) and the annotation
  \<^verbatim>\<open>-> list[str]\<close>.
\<close>

theorem xstr_claim_counterexample:
  "lower (py_str (PBool False)) = ''false''
   \<and> xstr (Some ''force'') (PBool False) = [PStr []]
   \<and> length (xstr (Some ''force'') (PBool False)) \<noteq> 0
   \<and> lower (py_str (PInt 8080)) \<noteq> ''true'' \<and> lower (py_str (PInt 8080)) \<noteq> ''false''
   \<and> xstr (Some ''proxyPort'') (PInt 8080) = [PStr ''-proxyPort'', PInt 8080]
   \<and> xstr (Some ''proxyPort'') (PInt 8080) \<noteq> [PStr ''-proxyPort'', PStr (py_str (PInt 8080))]"
  by (simp add: xstr_eval)

text \<open>
  C1, amended. For every option key and value: if the string form of the value lowers to
  \<^verbatim>\<open>"true"\<close> the builder returns exactly one token, \<^verbatim>\<open>-<key>\<close>; if it lowers to
  \<^verbatim>\<open>"false"\<close> it returns exactly one token, the empty string; otherwise it returns exactly
  two tokens, of which the first is \<^verbatim>\<open>-<key>\<close>, and the second is the string form of the value
  when the value is a string. What the second token is for a value that is not a string is
  left open.
\<close>

theorem xstr_tokens:
  "(lower (py_str v) = ''true'' \<longrightarrow> xstr (Some k) v = [PStr (''-'' @ k)])
   \<and> (lower (py_str v) = ''false'' \<longrightarrow> xstr (Some k) v = [PStr []])
   \<and> (lower (py_str v) \<noteq> ''true'' \<and> lower (py_str v) \<noteq> ''false''
        \<longrightarrow> length (xstr (Some k) v) = 2 \<and> xstr (Some k) v ! 0 = PStr (''-'' @ k))
   \<and> (lower s \<noteq> ''true'' \<and> lower s \<noteq> ''false''
        \<longrightarrow> xstr (Some k) (PStr s) = [PStr (''-'' @ k), PStr (py_str (PStr s))])"
  by (simp add: xstr_def)

text \<open>C1, amended, on the values \<^verbatim>\<open>"True"\<close>, \<^verbatim>\<open>False\<close>, \<^verbatim>\<open>8080\<close> and \<^verbatim>\<open>"abc"\<close>.\<close>

theorem xstr_tokens_witness:
  "lower (py_str (PStr ''True'')) = ''true''
   \<and> xstr (Some ''forcelocal'') (PStr ''True'') = [PStr ''-forcelocal'']
   \<and> lower (py_str (PBool False)) = ''false''
   \<and> xstr (Some ''force'') (PBool False) = [PStr []]
   \<and> lower (py_str (PInt 8080)) \<noteq> ''true'' \<and> lower (py_str (PInt 8080)) \<noteq> ''false''
   \<and> length (xstr (Some ''proxyPort'') (PInt 8080)) = 2
   \<and> xstr (Some ''proxyPort'') (PInt 8080) ! 0 = PStr ''-proxyPort''
   \<and> lower ''abc'' \<noteq> ''true'' \<and> lower ''abc'' \<noteq> ''false''
   \<and> xstr (Some ''localIdentifier'') (PStr ''abc'')
       = [PStr ''-localIdentifier'', PStr (py_str (PStr ''abc''))]"
proof -
  have h1: "lower (py_str (PStr ''True'')) = ''true''"
    by (simp add: lower_def lower_char_def)
  have h2: "lower (py_str (PBool False)) = ''false''"
    by (simp add: lower_def lower_char_def)
  have h3: "lower (py_str (PInt 8080)) \<noteq> ''true'' \<and> lower (py_str (PInt 8080)) \<noteq> ''false''"
    by (simp add: lower_def lower_char_def str_nat.simps digit_char_def)
  have h4: "lower ''abc'' \<noteq> ''true'' \<and> lower ''abc'' \<noteq> ''false''"
    by (simp add: lower_def lower_char_def)
  have c1: "xstr (Some ''forcelocal'') (PStr ''True'') = [PStr ''-forcelocal'']"
    using xstr_tokens [of "PStr ''True''" "''forcelocal''" "''abc''"] h1 by simp
  have c2: "xstr (Some ''force'') (PBool False) = [PStr []]"
    using xstr_tokens [of "PBool False" "''force''" "''abc''"] h2 by simp
  have c3: "length (xstr (Some ''proxyPort'') (PInt 8080)) = 2
            \<and> xstr (Some ''proxyPort'') (PInt 8080) ! 0 = PStr ''-proxyPort''"
    using xstr_tokens [of "PInt 8080" "''proxyPort''" "''abc''"] h3 by simp
  have c4: "xstr (Some ''localIdentifier'') (PStr ''abc'')
              = [PStr ''-localIdentifier'', PStr (py_str (PStr ''abc''))]"
    using xstr_tokens [of PNone "''localIdentifier''" "''abc''"] h4 by simp
  show ?thesis using h1 h2 h3 h4 c1 c2 c3 c4 by simp
qed

section \<open>Properties of the construction\<close>

text \<open>
  C2, as stated, fails. With the variable \<^verbatim>\<open>BROWSERSTACK_ACCESS_KEY\<close> set to
  \<^verbatim>\<open>envkey\<close> and the explicit argument \<^verbatim>\<open>argkey\<close>, the first construction stores
  \<^verbatim>\<open>envkey\<close>: the variable wins over the argument.
\<close>

theorem construction_key_counterexample:
  "[''BROWSERSTACK_ACCESS_KEY'' \<mapsto> ''envkey''] ''BROWSERSTACK_ACCESS_KEY'' = Some ''envkey''
   \<and> key (LocalSingleton [''BROWSERSTACK_ACCESS_KEY'' \<mapsto> ''envkey''] ''/home/user'' None
          (PStr ''argkey'') PNone [])
     = PStr ''envkey''
   \<and> key (LocalSingleton [''BROWSERSTACK_ACCESS_KEY'' \<mapsto> ''envkey''] ''/home/user'' None
          (PStr ''argkey'') PNone [])
     \<noteq> PStr ''argkey''"
  by (simp add: LocalSingleton_def new_def init_def)

text \<open>
  C2, amended. At the first construction of the singleton the variable
  \<^verbatim>\<open>BROWSERSTACK_ACCESS_KEY\<close>, when it is set, takes precedence over the explicit key
  argument; the argument is used only as the fallback, when the variable is not set.
\<close>

theorem first_construction_key:
  "(environ ''BROWSERSTACK_ACCESS_KEY'' = Some e
      \<longrightarrow> key (LocalSingleton environ cwd None k bp kwargs) = PStr e)
   \<and> (environ ''BROWSERSTACK_ACCESS_KEY'' = None
      \<longrightarrow> key (LocalSingleton environ cwd None k bp kwargs) = k)"
  by (simp add: LocalSingleton_def new_def init_def)

text \<open>
  C2, amended, with the variable set and an argument given, and with the variable not set.
\<close>

theorem first_construction_key_witness:
  "[''BROWSERSTACK_ACCESS_KEY'' \<mapsto> ''envkey''] ''BROWSERSTACK_ACCESS_KEY'' = Some ''envkey''
   \<and> key (LocalSingleton [''BROWSERSTACK_ACCESS_KEY'' \<mapsto> ''envkey''] ''/home/user'' None
          (PStr ''argkey'') PNone [])
     = PStr ''envkey''
   \<and> Map.empty ''BROWSERSTACK_ACCESS_KEY'' = (None :: string option)
   \<and> key (LocalSingleton Map.empty ''/home/user'' None (PStr ''argkey'') PNone [])
     = PStr ''argkey''"
proof -
  have h1: "[''BROWSERSTACK_ACCESS_KEY'' \<mapsto> ''envkey''] ''BROWSERSTACK_ACCESS_KEY'' = Some ''envkey''"
    by simp
  have h2: "Map.empty ''BROWSERSTACK_ACCESS_KEY'' = (None :: string option)"
    by simp
  have c1: "key (LocalSingleton [''BROWSERSTACK_ACCESS_KEY'' \<mapsto> ''envkey''] ''/home/user'' None
          (PStr ''argkey'') PNone []) = PStr ''envkey''"
    using first_construction_key [of "[''BROWSERSTACK_ACCESS_KEY'' \<mapsto> ''envkey'']" "''envkey''"
            "''/home/user''" "PStr ''argkey''" PNone "[]", THEN conjunct1] h1
    by (rule mp)
  have c2: "key (LocalSingleton Map.empty ''/home/user'' None (PStr ''argkey'') PNone [])
              = PStr ''argkey''"
    using first_construction_key [of Map.empty "''envkey''" "''/home/user''" "PStr ''argkey''"
            PNone "[]", THEN conjunct2] h2
    by (rule mp)
  show ?thesis by (intro conjI h1 h2 c1 c2)
qed

section \<open>Properties of start\<close>

subsection \<open>The process identifier\<close>

lemma pid_take_key [simp]: "pid (take_key s) = pid s"
  by (simp add: take_key_def split: option.splits)

lemma pid_take_logfile [simp]: "pid (take_logfile s) = pid s"
  by (simp add: take_logfile_def split: option.splits)

lemma pid_drop_source [simp]: "pid (drop_source s) = pid s"
  by (simp add: drop_source_def split: option.splits)

lemma pid_take_binarypath: "take_binarypath w s = Inr s' \<Longrightarrow> pid s' = pid s"
  by (auto simp: take_binarypath_def split: option.splits sum.splits)

lemma try_body_returns:
  "try_body w s out err = (b, Inr s') \<Longrightarrow> \<exists>p. s' = s\<lparr>pid := Some p\<rparr>"
  by (auto simp: try_body_def split: option.splits sum.splits if_splits)

lemma handshake_cases:
  assumes "handshake w s out err = (r, s', evs)"
  shows "(\<exists>e. r = Inl e \<and> s' = s) \<or> (r = Inr () \<and> (\<exists>p. s' = s\<lparr>pid := Some p\<rparr>) \<and> evs = [])"
proof -
  obtain b t where tb: "try_body w s out err = (b, t)"
    by (cases "try_body w s out err") auto
  show ?thesis
  proof (cases t)
    case (Inl e)
    then show ?thesis using assms tb
      by (auto simp: handshake_def split: option.splits if_splits)
  next
    case (Inr s'')
    then show ?thesis using assms tb try_body_returns [of w s out err b s'']
      by (auto simp: handshake_def)
  qed
qed

lemma launch_cases:
  assumes "launch w s = (r, s', evs)"
  shows "(\<exists>e. r = Inl e \<and> pid s' = pid s) \<or> (r = Inr () \<and> (\<exists>p. pid s' = Some p))"
proof (cases "popen w (generate_cmd w s)")
  case (Some e)
  then show ?thesis using assms by (auto simp: launch_def Let_def)
next
  case None
  let ?s1 = "s\<lparr>proc := Some (generate_cmd w s)\<rparr>"
  show ?thesis
  proof (cases "communicate w (generate_cmd w s)")
    case (Inl e)
    then show ?thesis using assms None by (auto simp: launch_def Let_def)
  next
    case (Inr oe)
    obtain out err where oe: "oe = (out, err)" by (cases oe) auto
    show ?thesis
    proof (cases "truncate_cmd (local_logfile_path s)")
      case (Inl e)
      then show ?thesis using assms None Inr oe by (auto simp: launch_def Let_def)
    next
      case sh: (Inr sh)
      obtain r2 s2 evs2 where h: "handshake w ?s1 out err = (r2, s2, evs2)"
        by (cases "handshake w ?s1 out err") auto
      have "r = r2" "s' = s2"
        using assms None Inr oe sh h by (auto simp: launch_def Let_def)
      then show ?thesis using handshake_cases [OF h] by auto
    qed
  qed
qed

text \<open>
  C3, as stated, fails. After a start that recorded the identifier 4321, a start whose
  daemon answers \<^verbatim>\<open>not json\<close> raises the parse error, and the field still holds 4321: it
  is not left unset.
\<close>

theorem failed_start_keeps_pid_counterexample:
  \<open>fst (start (host connected_4321 [] [4321]) fresh []) = Inr ()
   \<and> pid started = Some (JInt 4321)
   \<and> fst (start (host [] ''not json'' [4321]) started []) =
       Inl (BrowserStackLocalError
             (JStr ''Error parsing JSON output from daemon. Raw String = "not json"''))
   \<and> pid (fst (snd (start (host [] ''not json'' [4321]) started []))) = Some (JInt 4321)
   \<and> pid (fst (snd (start (host [] ''not json'' [4321]) started []))) \<noteq> None\<close>
  by code_simp

text \<open>
  C3, amended. A start that raises leaves the process-identifier field as it was before
  the call: unset if it was unset, still holding the earlier identifier otherwise. A start
  that returns on the \<^verbatim>\<open>onlyCommand\<close> path leaves it as it was too. Every other start
  that returns has recorded an identifier.
\<close>

theorem start_pid_frame:
  "(fst (start w self kwargs) = Inl e \<longrightarrow> pid (fst (snd (start w self kwargs))) = pid self)
   \<and> (fst (start w self kwargs) = Inr () \<and> only_command kwargs
        \<longrightarrow> pid (fst (snd (start w self kwargs))) = pid self)
   \<and> (fst (start w self kwargs) = Inr () \<and> \<not> only_command kwargs
        \<longrightarrow> pid (fst (snd (start w self kwargs))) \<noteq> None)"
proof -
  let ?s1 = "take_key (self\<lparr>options := merge_kwargs (options self) kwargs\<rparr>)"
  have p1: "pid ?s1 = pid self" by simp
  show ?thesis
  proof (cases "take_binarypath w ?s1")
    case (Inl e')
    then show ?thesis by (simp add: start_def Let_def p1)
  next
    case (Inr s2)
    then have p2: "pid s2 = pid self" using pid_take_binarypath [OF Inr] p1 by simp
    show ?thesis
    proof (cases "only_command kwargs")
      case True
      then show ?thesis using Inr p2 by (simp add: start_def Let_def)
    next
      case False
      obtain r s' evs where l: "launch w (drop_source (take_logfile s2)) = (r, s', evs)"
        by (cases "launch w (drop_source (take_logfile s2))") auto
      have st: "start w self kwargs = (r, s', evs)"
        using Inr False l by (simp add: start_def Let_def)
      show ?thesis using launch_cases [OF l] p2 False by (auto simp: st)
    qed
  qed
qed

text \<open>
  C3, amended, on a failing start after a successful one, on an \<^verbatim>\<open>onlyCommand\<close> start
  and on a successful start.
\<close>

theorem start_pid_frame_witness:
  \<open>fst (start (host [] ''not json'' [4321]) started []) =
       Inl (BrowserStackLocalError
             (JStr ''Error parsing JSON output from daemon. Raw String = "not json"''))
   \<and> pid (fst (snd (start (host [] ''not json'' [4321]) started []))) = pid started
   \<and> fst (start (host connected_4321 [] [4321]) fresh [(''onlyCommand'', PBool True)]) = Inr ()
   \<and> only_command [(''onlyCommand'', PBool True)]
   \<and> pid (fst (snd (start (host connected_4321 [] [4321]) fresh [(''onlyCommand'', PBool True)])))
       = pid fresh
   \<and> fst (start (host connected_4321 [] [4321]) fresh []) = Inr ()
   \<and> \<not> only_command []
   \<and> pid (fst (snd (start (host connected_4321 [] [4321]) fresh []))) \<noteq> None\<close>
proof -
  have h1: \<open>fst (start (host [] ''not json'' [4321]) started []) =
       Inl (BrowserStackLocalError
             (JStr ''Error parsing JSON output from daemon. Raw String = "not json"''))\<close>
    by code_simp
  have h2: "fst (start (host connected_4321 [] [4321]) fresh [(''onlyCommand'', PBool True)]) = Inr ()"
    by code_simp
  have h3: "only_command [(''onlyCommand'', PBool True)]" by code_simp
  have h4: "fst (start (host connected_4321 [] [4321]) fresh []) = Inr ()" by code_simp
  have h5: "\<not> only_command []" by code_simp
  have c1: "pid (fst (snd (start (host [] ''not json'' [4321]) started []))) = pid started"
    using start_pid_frame [of "host [] ''not json'' [4321]" started "[]", THEN conjunct1] h1
    by (rule mp)
  have c2: "pid (fst (snd (start (host connected_4321 [] [4321]) fresh [(''onlyCommand'', PBool True)])))
       = pid fresh"
    using start_pid_frame [of "host connected_4321 [] [4321]" fresh "[(''onlyCommand'', PBool True)]",
            THEN conjunct2, THEN conjunct1] conjI [OF h2 h3]
    by (rule mp)
  have c3: "pid (fst (snd (start (host connected_4321 [] [4321]) fresh []))) \<noteq> None"
    using start_pid_frame [of "host connected_4321 [] [4321]" fresh "[]",
            THEN conjunct2, THEN conjunct2] conjI [OF h4 h5]
    by (rule mp)
  show ?thesis
    by (intro conjI h1 h2 h3 h4 h5 c1 c2 c3)
qed

subsection \<open>The options\<close>

lemma map_of_merge_other:
  "k \<notin> fst ` set kwargs \<Longrightarrow> map_of (merge_kwargs opts kwargs) k = map_of opts k"
  unfolding merge_kwargs_def
  by (induction kwargs arbitrary: opts) (auto simp: update_conv')

lemma map_of_merge_given:
  "distinct (map fst kwargs) \<Longrightarrow> map_of kwargs k = Some v
     \<Longrightarrow> map_of (merge_kwargs opts kwargs) k = Some v"
  unfolding merge_kwargs_def
proof (induction kwargs arbitrary: opts)
  case Nil
  then show ?case by simp
next
  case (Cons kv kwargs)
  obtain k' v' where kv: "kv = (k', v')" by (cases kv) auto
  show ?case
  proof (cases "k' = k")
    case True
    then have "v' = v" and "k \<notin> fst ` set kwargs"
      using Cons.prems kv by auto
    then show ?thesis
      using map_of_merge_other [of k kwargs "AList.update k v opts"] kv True
      by (simp add: merge_kwargs_def update_conv')
  next
    case False
    then show ?thesis using Cons kv by simp
  qed
qed

lemma map_of_merge_stored:
  "map_of opts k \<noteq> None \<Longrightarrow> map_of (merge_kwargs opts kwargs) k \<noteq> None"
  unfolding merge_kwargs_def
  by (induction kwargs arbitrary: opts) (auto simp: update_conv')

lemma map_of_merge_passed:
  "map_of kwargs k \<noteq> None \<Longrightarrow> map_of (merge_kwargs opts kwargs) k \<noteq> None"
proof (induction kwargs arbitrary: opts)
  case Nil
  then show ?case by simp
next
  case (Cons kv kwargs)
  obtain k' v' where kv: "kv = (k', v')" by (cases kv) auto
  have unfold: "merge_kwargs opts (kv # kwargs) = merge_kwargs (AList.update k' v' opts) kwargs"
    by (simp add: merge_kwargs_def kv)
  show ?case
  proof (cases "k' = k")
    case True
    then show ?thesis
      unfolding unfold using map_of_merge_stored [of "AList.update k' v' opts" k kwargs]
      by (simp add: update_conv')
  next
    case False
    then show ?thesis unfolding unfold using Cons kv by simp
  qed
qed

lemma map_of_merge_present:
  "map_of opts k \<noteq> None \<or> map_of kwargs k \<noteq> None \<Longrightarrow> map_of (merge_kwargs opts kwargs) k \<noteq> None"
  using map_of_merge_stored map_of_merge_passed by blast

lemma options_take_key: "k \<noteq> ''key'' \<Longrightarrow> map_of (options (take_key s)) k = map_of (options s) k"
  by (simp add: take_key_def split: option.splits)

lemma options_take_logfile:
  "k \<noteq> ''logfile'' \<Longrightarrow> map_of (options (take_logfile s)) k = map_of (options s) k"
  by (simp add: take_logfile_def split: option.splits)

lemma options_drop_source:
  "k \<noteq> ''source'' \<Longrightarrow> map_of (options (drop_source s)) k = map_of (options s) k"
  by (simp add: drop_source_def split: option.splits)

lemma options_take_binarypath:
  "take_binarypath w s = Inr s' \<Longrightarrow> k \<noteq> ''binarypath''
     \<Longrightarrow> map_of (options s') k = map_of (options s) k"
  by (auto simp: take_binarypath_def split: option.splits sum.splits)

lemma handshake_options: "options (fst (snd (handshake w s out err))) = options s"
proof -
  obtain r s' evs where h: "handshake w s out err = (r, s', evs)"
    by (cases "handshake w s out err") auto
  show ?thesis using handshake_cases [OF h] h by auto
qed

lemma launch_options: "options (fst (snd (launch w s))) = options s"
proof (cases "popen w (generate_cmd w s)")
  case (Some e)
  then show ?thesis by (simp add: launch_def Let_def)
next
  case None
  show ?thesis
  proof (cases "communicate w (generate_cmd w s)")
    case (Inl e)
    then show ?thesis using None by (simp add: launch_def Let_def)
  next
    case (Inr oe)
    obtain out err where oe: "oe = (out, err)" by (cases oe) auto
    show ?thesis
    proof (cases "truncate_cmd (local_logfile_path s)")
      case (Inl e)
      then show ?thesis using None Inr oe by (simp add: launch_def Let_def)
    next
      case sh: (Inr sh)
      show ?thesis
        using None Inr oe sh
          handshake_options [of w "s\<lparr>proc := Some (generate_cmd w s)\<rparr>" out err]
        by (auto simp: launch_def Let_def split: prod.splits)
    qed
  qed
qed

lemma start_options:
  assumes "k \<notin> {''key'', ''binarypath'', ''logfile'', ''source''}"
  shows "map_of (options (fst (snd (start w self kwargs)))) k
           = map_of (merge_kwargs (options self) kwargs) k"
proof -
  let ?s1 = "take_key (self\<lparr>options := merge_kwargs (options self) kwargs\<rparr>)"
  have o1: "map_of (options ?s1) k = map_of (merge_kwargs (options self) kwargs) k"
    using assms by (simp add: options_take_key)
  show ?thesis
  proof (cases "take_binarypath w ?s1")
    case (Inl e)
    then show ?thesis using o1 by (simp add: start_def Let_def)
  next
    case (Inr s2)
    have o2: "map_of (options s2) k = map_of (options ?s1) k"
      using options_take_binarypath [OF Inr] assms by simp
    have o3: "map_of (options (take_logfile s2)) k = map_of (options s2) k"
      using assms by (simp add: options_take_logfile)
    have o4: "map_of (options (drop_source (take_logfile s2))) k = map_of (options s2) k"
      using assms o3 by (simp add: options_drop_source)
    show ?thesis
      using Inr o1 o2 o3 o4 launch_options [of w "drop_source (take_logfile s2)"]
      by (simp add: start_def Let_def)
  qed
qed

subsection \<open>The onlyCommand return\<close>




subsection \<open>The handshake\<close>

lemma handshake_undecodable:
  "decode w (if out \<noteq> [] then out else err) = None
     \<Longrightarrow> handshake w s out err = (Inl (UnboundLocalError ''output_string''), s, [])"
  by (simp add: handshake_def try_body_def)

lemma handshake_parse_error:
  \<open>decode w (if out \<noteq> [] then out else err) = Some raw \<Longrightarrow> loads w raw = None
     \<Longrightarrow> handshake w s out err =
          (Inl (BrowserStackLocalError
                 (JStr (''Error parsing JSON output from daemon. Raw String = "'' @ raw @ ''"''))),
           s,
           [LogError (''BinaryOutputParseError: Raw String = '' @ [CHR 0x27] @ raw @ [CHR 0x27])
              None])\<close>
  by (simp add: handshake_def try_body_def)

lemma handshake_rejected:
  "decode w (if out \<noteq> [] then out else err) = Some raw \<Longrightarrow> loads w raw = Some data
     \<Longrightarrow> subscript data ''state'' = Inr st \<Longrightarrow> st \<noteq> JStr ''connected''
     \<Longrightarrow> subscript data ''message'' = Inr m \<Longrightarrow> subscript m ''message'' = Inr msg
     \<Longrightarrow> handshake w s out err = (Inl (BrowserStackLocalError msg), s, [])"
  by (simp add: handshake_def try_body_def)

lemma handshake_connected:
  "decode w (if out \<noteq> [] then out else err) = Some raw \<Longrightarrow> loads w raw = Some data
     \<Longrightarrow> subscript data ''state'' = Inr (JStr ''connected'') \<Longrightarrow> subscript data ''pid'' = Inr p
     \<Longrightarrow> handshake w s out err = (Inr (), s\<lparr>pid := Some p\<rparr>, [])"
  by (simp add: handshake_def try_body_def)

text \<open>
  A start whose trace begins with the child process and the shell command has reached the
  handshake, with the output of that child.
\<close>

lemma launch_reached_handshake:
  assumes "snd (snd (launch w s)) = Spawn cmd # Shell sh # evs"
    and "communicate w cmd = Inr (out, err)"
  shows "\<exists>s1. pid s1 = pid s \<and> fst (launch w s) = fst (handshake w s1 out err)
            \<and> fst (snd (launch w s)) = fst (snd (handshake w s1 out err))
            \<and> evs = snd (snd (handshake w s1 out err))"
proof (cases "popen w (generate_cmd w s)")
  case (Some e)
  then show ?thesis using assms by (simp add: launch_def Let_def)
next
  case None
  show ?thesis
  proof (cases "communicate w (generate_cmd w s)")
    case (Inl e)
    then show ?thesis using assms None by (simp add: launch_def Let_def)
  next
    case (Inr oe)
    obtain out' err' where oe: "oe = (out', err')" by (cases oe) auto
    show ?thesis
    proof (cases "truncate_cmd (local_logfile_path s)")
      case (Inl e)
      then show ?thesis using assms None Inr oe by (simp add: launch_def Let_def)
    next
      case t: (Inr sh')
      let ?s1 = "s\<lparr>proc := Some (generate_cmd w s)\<rparr>"
      obtain r2 s2 evs2 where h: "handshake w ?s1 out' err' = (r2, s2, evs2)"
        by (cases "handshake w ?s1 out' err'") auto
      have l: "launch w s = (r2, s2, [Spawn (generate_cmd w s), Shell sh'] @ evs2)"
        using None Inr oe t h by (simp add: launch_def Let_def)
      have "cmd = generate_cmd w s" "evs = evs2" using assms(1) l by simp_all
      then have "out' = out" "err' = err" using assms(2) Inr oe by simp_all
      then show ?thesis using l h \<open>evs = evs2\<close> by (intro exI [of _ ?s1]) simp
    qed
  qed
qed

lemma start_reached_handshake:
  assumes "snd (snd (start w self kwargs)) = Spawn cmd # Shell sh # evs"
    and "communicate w cmd = Inr (out, err)"
  shows "\<exists>s1. pid s1 = pid self \<and> fst (start w self kwargs) = fst (handshake w s1 out err)
            \<and> fst (snd (start w self kwargs)) = fst (snd (handshake w s1 out err))
            \<and> evs = snd (snd (handshake w s1 out err))"
proof -
  let ?s1 = "take_key (self\<lparr>options := merge_kwargs (options self) kwargs\<rparr>)"
  show ?thesis
  proof (cases "take_binarypath w ?s1")
    case (Inl e)
    then show ?thesis using assms(1) by (simp add: start_def Let_def)
  next
    case (Inr s2)
    have p2: "pid s2 = pid self" using pid_take_binarypath [OF Inr] by simp
    show ?thesis
    proof (cases "only_command kwargs")
      case True
      then show ?thesis using assms(1) Inr by (simp add: start_def Let_def)
    next
      case False
      have st: "start w self kwargs = launch w (drop_source (take_logfile s2))"
        using Inr False by (simp add: start_def Let_def)
      have ev: "snd (snd (launch w (drop_source (take_logfile s2)))) = Spawn cmd # Shell sh # evs"
        using assms(1) by (simp add: st)
      show ?thesis
        using launch_reached_handshake [OF ev assms(2)] p2
        by (simp add: st)
    qed
  qed
qed

text \<open>
  When stdout is empty it is stderr that is decoded; and when the text decoded is not
  JSON, the start raises the parse error that carries the text, and leaves the process
  identifier as it was.
\<close>

lemma start_parse_error:
  assumes "snd (snd (start w self kwargs)) = Spawn cmd # Shell sh # evs"
    and "communicate w cmd = Inr (out, err)"
    and "decode w (if out \<noteq> [] then out else err) = Some raw"
    and "loads w raw = None"
  shows \<open>fst (start w self kwargs) =
           Inl (BrowserStackLocalError
                 (JStr (''Error parsing JSON output from daemon. Raw String = "'' @ raw @ ''"'')))
         \<and> pid (fst (snd (start w self kwargs))) = pid self\<close>
proof -
  obtain s1 where s1: "pid s1 = pid self"
      "fst (start w self kwargs) = fst (handshake w s1 out err)"
      "fst (snd (start w self kwargs)) = fst (snd (handshake w s1 out err))"
    using start_reached_handshake [OF assms(1,2)] by blast
  show ?thesis
    using s1 handshake_parse_error [OF assms(3,4), of s1] by simp
qed

lemma start_undecodable:
  assumes "snd (snd (start w self kwargs)) = Spawn cmd # Shell sh # evs"
    and "communicate w cmd = Inr (out, err)"
    and "decode w (if out \<noteq> [] then out else err) = None"
  shows "fst (start w self kwargs) = Inl (UnboundLocalError ''output_string'')"
proof -
  obtain s1 where s1: "fst (start w self kwargs) = fst (handshake w s1 out err)"
    using start_reached_handshake [OF assms(1,2)] by blast
  show ?thesis
    using s1 handshake_undecodable [OF assms(3), of s1] by simp
qed

lemma start_not_json:
  \<open>fst (start (host [] ''not json'' []) fresh []) =
       Inl (BrowserStackLocalError
             (JStr ''Error parsing JSON output from daemon. Raw String = "not json"''))
   \<and> pid (fst (snd (start (host [] ''not json'' []) fresh []))) = None
   \<and> LogError (''BinaryOutputParseError: Raw String = '' @ [CHR 0x27] @ ''not json'' @ [CHR 0x27])
        None \<in> set (snd (snd (start (host [] ''not json'' []) fresh [])))\<close>
  by code_simp

text \<open>
  C6 says that start decodes stderr when stdout is empty, and that whenever the chosen
  output is not valid structured data it raises the parse error that carries the raw
  output. The code does not, on stdout empty and the single byte 0xFF on stderr, which is
  not even UTF-8: \<^verbatim>\<open>decode\<close> raises inside the \<^verbatim>\<open>try\<close>, the handler
  \<^verbatim>\<open>except ValueError\<close> catches it and reads \<^verbatim>\<open>output_string\<close>, which was never bound, and
  the start raises \<^verbatim>\<open>UnboundLocalError\<close>, after the child process was opened and the log
  file truncated.
\<close>

theorem start_undecodable_output:
  "utf8_decode [CHR 0xFF] = None
   \<and> fst (start (host [] [CHR 0xFF] []) fresh []) = Inl (UnboundLocalError ''output_string'')
   \<and> snd (snd (start (host [] [CHR 0xFF] []) fresh [])) = [Spawn start_cmd, Shell truncate_log]"
  by code_simp

text \<open>
  When the output of the launched daemon decodes to \<^verbatim>\<open>data\<close>, its state field is not
  \<^verbatim>\<open>"connected"\<close> and it has a message object with a message in it, the start raises
  \<^verbatim>\<open>BrowserStackLocalError\<close> with that message. When the state is \<^verbatim>\<open>"connected"\<close> and
  there is a pid field, the start returns and the identifier recorded is that pid.
\<close>

lemma handshake_decoded:
  assumes "snd (snd (start w self kwargs)) = Spawn cmd # Shell sh # evs"
    and "communicate w cmd = Inr (out, err)"
    and "decode w (if out \<noteq> [] then out else err) = Some raw"
    and "loads w raw = Some data"
  shows "(subscript data ''state'' = Inr st \<and> st \<noteq> JStr ''connected''
            \<and> subscript data ''message'' = Inr m \<and> subscript m ''message'' = Inr msg
          \<longrightarrow> fst (start w self kwargs) = Inl (BrowserStackLocalError msg))
       \<and> (subscript data ''state'' = Inr (JStr ''connected'') \<and> subscript data ''pid'' = Inr p
          \<longrightarrow> fst (start w self kwargs) = Inr ()
              \<and> pid (fst (snd (start w self kwargs))) = Some p)"
proof -
  obtain s1 where s1: "fst (start w self kwargs) = fst (handshake w s1 out err)"
      "fst (snd (start w self kwargs)) = fst (snd (handshake w s1 out err))"
    using start_reached_handshake [OF assms(1,2)] by blast
  show ?thesis
    using s1 handshake_rejected [OF assms(3,4), of st m msg s1]
      handshake_connected [OF assms(3,4), of p s1]
    by auto
qed

text \<open>
  On the two handshakes of the tests: \<^verbatim>\<open>bad key\<close> is raised for the rejected one, 4321 is
  recorded for the connected one.
\<close>

lemma handshake_decoded_on_samples:
  "fst (start (host rejected_bad_key [] []) fresh []) = Inl (BrowserStackLocalError (JStr ''bad key''))
   \<and> fst (start (host connected_4321 [] []) fresh []) = Inr ()
   \<and> pid (fst (snd (start (host connected_4321 [] []) fresh []))) = Some (JInt 4321)"
proof -
  let ?bad = "JObj [(''state'', JStr ''error''), (''message'', JObj [(''message'', JStr ''bad key'')])]"
  let ?ok = "JObj [(''state'', JStr ''connected''), (''pid'', JInt 4321)]"
  have e1: "snd (snd (start (host rejected_bad_key [] []) fresh []))
              = Spawn start_cmd # Shell truncate_log # []"
    by code_simp
  have e2: "snd (snd (start (host connected_4321 [] []) fresh []))
              = Spawn start_cmd # Shell truncate_log # []"
    by code_simp
  have c1: "communicate (host rejected_bad_key [] []) start_cmd = Inr (rejected_bad_key, [])"
    by (simp add: host_def)
  have c2: "communicate (host connected_4321 [] []) start_cmd = Inr (connected_4321, [])"
    by (simp add: host_def)
  have d1: "decode (host rejected_bad_key [] [])
              (if rejected_bad_key \<noteq> [] then rejected_bad_key else []) = Some rejected_bad_key"
    by code_simp
  have d2: "decode (host connected_4321 [] [])
              (if connected_4321 \<noteq> [] then connected_4321 else []) = Some connected_4321"
    by code_simp
  have l1: "loads (host rejected_bad_key [] []) rejected_bad_key = Some ?bad"
    by code_simp
  have l2: "loads (host connected_4321 [] []) connected_4321 = Some ?ok"
    by code_simp
  have s1: "subscript ?bad ''state'' = Inr (JStr ''error'') \<and> JStr ''error'' \<noteq> JStr ''connected''
            \<and> subscript ?bad ''message'' = Inr (JObj [(''message'', JStr ''bad key'')])
            \<and> subscript (JObj [(''message'', JStr ''bad key'')]) ''message'' = Inr (JStr ''bad key'')"
    by simp
  have s2: "subscript ?ok ''state'' = Inr (JStr ''connected'') \<and> subscript ?ok ''pid'' = Inr (JInt 4321)"
    by simp
  have r1: "fst (start (host rejected_bad_key [] []) fresh [])
              = Inl (BrowserStackLocalError (JStr ''bad key''))"
    using handshake_decoded [OF e1 c1 d1 l1, THEN conjunct1] s1 by (rule mp)
  have r2: "fst (start (host connected_4321 [] []) fresh []) = Inr ()
            \<and> pid (fst (snd (start (host connected_4321 [] []) fresh []))) = Some (JInt 4321)"
    using handshake_decoded [OF e2 c2 d2 l2, THEN conjunct2] s2 by (rule mp)
  show ?thesis using r1 r2 by (intro conjI) simp_all
qed

text \<open>
  A subscript that fails raises \<^verbatim>\<open>KeyError\<close> or \<^verbatim>\<open>TypeError\<close>, which the handler does not
  catch: a handshake that decodes, is not connected and has no message object with a
  message in it makes the start raise the error of the subscript, on every host.
\<close>

lemma subscript_not_ValueError: "subscript d k = Inl e \<Longrightarrow> \<not> is_ValueError e"
  by (cases d) (auto split: option.splits)

lemma handshake_message_missing:
  assumes "decode w (if out \<noteq> [] then out else err) = Some raw"
    and "loads w raw = Some data"
    and "subscript data ''state'' = Inr st"
    and "st \<noteq> JStr ''connected''"
    and "subscript data ''message'' = Inl e
         \<or> (\<exists>m. subscript data ''message'' = Inr m \<and> subscript m ''message'' = Inl e)"
  shows "handshake w s out err = (Inl e, s, [])"
proof -
  from assms(5) show ?thesis
  proof
    assume a: "subscript data ''message'' = Inl e"
    then have "\<not> is_ValueError e" by (rule subscript_not_ValueError)
    then show ?thesis using assms(1-4) a by (simp add: handshake_def try_body_def)
  next
    assume "\<exists>m. subscript data ''message'' = Inr m \<and> subscript m ''message'' = Inl e"
    then obtain m where m: "subscript data ''message'' = Inr m" "subscript m ''message'' = Inl e"
      by blast
    have "\<not> is_ValueError e" using m(2) by (rule subscript_not_ValueError)
    then show ?thesis using assms(1-4) m by (simp add: handshake_def try_body_def)
  qed
qed

lemma start_message_missing:
  assumes "snd (snd (start w self kwargs)) = Spawn cmd # Shell sh # evs"
    and "communicate w cmd = Inr (out, err)"
    and "decode w (if out \<noteq> [] then out else err) = Some raw"
    and "loads w raw = Some data"
    and "subscript data ''state'' = Inr st"
    and "st \<noteq> JStr ''connected''"
    and "subscript data ''message'' = Inl e
         \<or> (\<exists>m. subscript data ''message'' = Inr m \<and> subscript m ''message'' = Inl e)"
  shows "fst (start w self kwargs) = Inl e"
proof -
  obtain s1 where s1: "fst (start w self kwargs) = fst (handshake w s1 out err)"
    using start_reached_handshake [OF assms(1,2)] by blast
  show ?thesis
    using s1 handshake_message_missing [OF assms(3-7), of s1] by simp
qed

text \<open>
  C7 says that, whenever the handshake decodes and its state field is not \<^verbatim>\<open>"connected"\<close>,
  start raises the error that carries the message of the handshake, and that a connected
  handshake with a pid field records that pid. The second half holds, and so does the first
  for a handshake with a nested message (the lemma above). The code misses the handshakes
  whose message is absent or is not an object: \<^verbatim>\<open>data["message"]["message"]\<close> is evaluated
  before \<^verbatim>\<open>BrowserStackLocalError\<close> is built, and raises \<^verbatim>\<open>KeyError\<close> or \<^verbatim>\<open>TypeError\<close>,
  which the handler \<^verbatim>\<open>except ValueError\<close> does not catch. The start then raises that error,
  not the rejection error, and records no identifier.
\<close>

theorem start_rejected_without_message:
  "json_loads rejected_no_message = Some (JObj [(''state'', JStr ''disconnected'')])
   \<and> fst (start (host rejected_no_message [] []) fresh []) = Inl (KeyError ''message'')
   \<and> pid (fst (snd (start (host rejected_no_message [] []) fresh []))) = None
   \<and> json_loads rejected_flat_message
       = Some (JObj [(''state'', JStr ''error''), (''message'', JStr ''bad key'')])
   \<and> fst (start (host rejected_flat_message [] []) fresh []) = Inl (TypeError ''str'')
   \<and> pid (fst (snd (start (host rejected_flat_message [] []) fresh []))) = None"
  by code_simp

section \<open>Properties of stop and is_running\<close>

text \<open>
  C8. For every singleton and every host, stop returns normally and leaves the singleton
  as it was; an exception raised while the stop command is built, the child process is
  opened or waited for is logged at error severity, after whatever was done before it.
\<close>

theorem stop_never_raises:
  "fst (stop w self) = Inr ()
   \<and> fst (snd (stop w self)) = self
   \<and> snd (snd (stop w self)) =
       (case fst (stop_body w self) of
          Inl e \<Rightarrow> snd (stop_body w self) @ [LogError ''Error stopping BrowserStack Local: '' (Some e)]
        | Inr u \<Rightarrow> snd (stop_body w self))"
  by (simp add: stop_def split: prod.splits sum.splits)

text \<open>
  C8 on a host where no child process can be opened.
\<close>

theorem stop_never_raises_witness:
  "fst (stop ((host [] [] []) \<lparr>popen := (\<lambda>cmd. Some (OSError ''No such file or directory''))\<rparr>)
          started) = Inr ()
   \<and> snd (snd (stop ((host [] [] []) \<lparr>popen := (\<lambda>cmd. Some (OSError ''No such file or directory''))\<rparr>)
          started))
       = [LogError ''Error stopping BrowserStack Local: '' (Some (OSError ''No such file or directory''))]"
proof -
  let ?w = "(host [] [] []) \<lparr>popen := (\<lambda>cmd. Some (OSError ''No such file or directory''))\<rparr>"
  have b: "stop_body ?w started = (Inl (OSError ''No such file or directory''), [])"
    by code_simp
  show ?thesis using stop_never_raises [of ?w started] b by simp
qed

text \<open>
  C9. \<^verbatim>\<open>is_running\<close> returns true if and only if an identifier is recorded and
  \<^verbatim>\<open>psutil.pid_exists\<close> says that a process with that identifier exists; it returns false,
  and does not raise, when no identifier is recorded, as on a singleton just constructed.
\<close>

theorem is_running_iff:
  "(is_running w self = Inr True \<longleftrightarrow> (\<exists>p. pid self = Some p \<and> pid_exists w p = Inr True))
   \<and> (pid self = None \<longrightarrow> is_running w self = Inr False)
   \<and> is_running w (LocalSingleton environ cwd None k bp kwargs) = Inr False"
  by (auto simp: is_running_def LocalSingleton_def new_def init_def split: option.splits)

text \<open>
  C9 on a started singleton whose process is alive, on one whose process is gone, and on
  a singleton that was never started.
\<close>

theorem is_running_iff_witness:
  "pid started = Some (JInt 4321)
   \<and> pid_exists (host [] [] [1, 4321]) (JInt 4321) = Inr True
   \<and> is_running (host [] [] [1, 4321]) started = Inr True
   \<and> pid_exists (host [] [] [1]) (JInt 4321) = Inr False
   \<and> is_running (host [] [] [1]) started \<noteq> Inr True
   \<and> pid fresh = None
   \<and> is_running (host [] [] [1, 4321]) fresh = Inr False"
proof -
  have h1: "pid started = Some (JInt 4321)" by code_simp
  have h2: "pid_exists (host [] [] [1, 4321]) (JInt 4321) = Inr True" by code_simp
  have h3: "pid_exists (host [] [] [1]) (JInt 4321) = Inr False" by code_simp
  have h4: "pid fresh = None" by code_simp
  have c1: "is_running (host [] [] [1, 4321]) started = Inr True"
    using is_running_iff [of "host [] [] [1, 4321]" started, THEN conjunct1] h1 h2 by blast
  have c2: "is_running (host [] [] [1]) started \<noteq> Inr True"
    using is_running_iff [of "host [] [] [1]" started, THEN conjunct1] h1 h3 by auto
  have c3: "is_running (host [] [] [1, 4321]) fresh = Inr False"
    using is_running_iff [of "host [] [] [1, 4321]" fresh, THEN conjunct2, THEN conjunct1] h4
    by (rule mp)
  show ?thesis by (intro conjI h1 h2 h3 h4 c1 c2 c3)
qed

section \<open>The stored onlyCommand option\<close>

lemma option_tokens_keeps: "set cmd \<subseteq> set (option_tokens opts ks cmd)"
  using option_tokens_append [of opts ks cmd] by simp

lemma xstr_true: "xstr (Some k) (PBool True) = [PStr (''-'' @ k)]"
  by (simp add: xstr_def lower_def lower_char_def)

lemma option_tokens_flag:
  "k \<in> set ks \<Longrightarrow> map_of opts k = Some (PBool True)
     \<Longrightarrow> PStr (''-'' @ k) \<in> set (option_tokens opts ks cmd)"
proof (induction ks arbitrary: cmd)
  case Nil
  then show ?case by simp
next
  case (Cons a ks)
  show ?case
  proof (cases "a = k")
    case True
    have "option_tokens opts (a # ks) cmd = option_tokens opts ks (cmd @ [PStr (''-'' @ k)])"
      using True Cons.prems(2) by (simp add: xstr_true)
    then show ?thesis
      using option_tokens_keeps [of "cmd @ [PStr (''-'' @ k)]" opts ks] by auto
  next
    case False
    then have "k \<in> set ks" using Cons.prems(1) by simp
    then show ?thesis using Cons.IH Cons.prems(2) by simp
  qed
qed

lemma flag_in_cmds:
  assumes "map_of (options s) ''onlyCommand'' = Some (PBool True)"
  shows "PStr ''-onlyCommand'' \<in> set (generate_cmd w s)"
    and "\<exists>cmd. generate_stop_cmd w s = Inr cmd \<and> PStr ''-onlyCommand'' \<in> set cmd"
proof -
  have "''onlyCommand'' \<in> set (map fst (options s))"
    using map_of_SomeD [OF assms] by force
  then have t: "PStr ''-onlyCommand'' \<in> set (option_tokens (options s) (map fst (options s)) [])"
    using option_tokens_flag [OF _ assms] by simp
  show "PStr ''-onlyCommand'' \<in> set (generate_cmd w s)"
    using t by (simp add: generate_cmd_prefix)
  show "\<exists>cmd. generate_stop_cmd w s = Inr cmd \<and> PStr ''-onlyCommand'' \<in> set cmd"
    using t by (simp add: generate_stop_cmd_def generate_cmd_prefix)
qed

lemma starts_keep_flag:
  "map_of (options s) ''onlyCommand'' = Some v
     \<Longrightarrow> list_all (\<lambda>(w, kwargs). map_of kwargs ''onlyCommand'' = None) calls
     \<Longrightarrow> map_of (options (starts s calls)) ''onlyCommand'' = Some v"
proof (induction calls arbitrary: s)
  case Nil
  then show ?case by simp
next
  case (Cons c calls)
  obtain w kwargs where c: "c = (w, kwargs)" by (cases c) auto
  have none: "''onlyCommand'' \<notin> fst ` set kwargs"
    using Cons.prems(2) c by (simp add: map_of_eq_None_iff)
  have "map_of (options (fst (snd (start w s kwargs)))) ''onlyCommand'' = Some v"
    using start_options [of "''onlyCommand''" w s kwargs] map_of_merge_other [OF none]
      Cons.prems(1) by simp
  then show ?case using Cons.IH Cons.prems(2) c by simp
qed

text \<open>
  C10. No start removes the key \<^verbatim>\<open>onlyCommand\<close> from the options: if it is stored or
  passed, it is stored afterwards, whatever the start returns or raises. After
  \<^verbatim>\<open>start(onlyCommand=True)\<close>, and after any further starts that do not pass the key, every
  start command and every stop command generated holds the token \<^verbatim>\<open>-onlyCommand\<close>.
\<close>

theorem only_command_key_kept:
  "(map_of (options self) ''onlyCommand'' \<noteq> None \<or> map_of kwargs ''onlyCommand'' \<noteq> None
      \<longrightarrow> map_of (options (fst (snd (start w self kwargs)))) ''onlyCommand'' \<noteq> None)
   \<and> (distinct (map fst kwargs) \<and> map_of kwargs ''onlyCommand'' = Some (PBool True)
        \<and> list_all (\<lambda>(w', kwargs'). map_of kwargs' ''onlyCommand'' = None) calls
      \<longrightarrow> PStr ''-onlyCommand''
            \<in> set (generate_cmd w2 (starts (fst (snd (start w self kwargs))) calls))
          \<and> (\<exists>cmd. generate_stop_cmd w2 (starts (fst (snd (start w self kwargs))) calls) = Inr cmd
                   \<and> PStr ''-onlyCommand'' \<in> set cmd))"
proof (intro conjI impI)
  assume "map_of (options self) ''onlyCommand'' \<noteq> None \<or> map_of kwargs ''onlyCommand'' \<noteq> None"
  then show "map_of (options (fst (snd (start w self kwargs)))) ''onlyCommand'' \<noteq> None"
    using start_options [of "''onlyCommand''" w self kwargs]
      map_of_merge_present [of "options self" "''onlyCommand''" kwargs] by simp
next
  assume a: "distinct (map fst kwargs) \<and> map_of kwargs ''onlyCommand'' = Some (PBool True)
        \<and> list_all (\<lambda>(w', kwargs'). map_of kwargs' ''onlyCommand'' = None) calls"
  have "map_of (options (fst (snd (start w self kwargs)))) ''onlyCommand'' = Some (PBool True)"
    using start_options [of "''onlyCommand''" w self kwargs]
      map_of_merge_given [of kwargs "''onlyCommand''" "PBool True" "options self"] a by simp
  then have k: "map_of (options (starts (fst (snd (start w self kwargs))) calls)) ''onlyCommand''
                 = Some (PBool True)"
    using starts_keep_flag a by blast
  show "PStr ''-onlyCommand''
            \<in> set (generate_cmd w2 (starts (fst (snd (start w self kwargs))) calls))"
    by (rule flag_in_cmds(1) [OF k])
  show "\<exists>cmd. generate_stop_cmd w2 (starts (fst (snd (start w self kwargs))) calls) = Inr cmd
                   \<and> PStr ''-onlyCommand'' \<in> set cmd"
    by (rule flag_in_cmds(2) [OF k])
qed

text \<open>
  C10 on \<^verbatim>\<open>start(onlyCommand=True)\<close> followed by \<^verbatim>\<open>start(forcelocal=True)\<close>.
\<close>

theorem only_command_key_kept_witness:
  "map_of [(''onlyCommand'', PBool True)] ''onlyCommand'' \<noteq> None
   \<and> map_of (options (fst (snd (start (host connected_4321 [] []) fresh
                                      [(''onlyCommand'', PBool True)])))) ''onlyCommand'' \<noteq> None
   \<and> distinct (map fst [(''onlyCommand'', PBool True)])
   \<and> list_all (\<lambda>(w', kwargs'). map_of kwargs' ''onlyCommand'' = None)
        [(host connected_4321 [] [], [(''forcelocal'', PBool True)])]
   \<and> PStr ''-onlyCommand''
       \<in> set (generate_cmd (host [] [] [])
                (starts (fst (snd (start (host connected_4321 [] []) fresh
                                     [(''onlyCommand'', PBool True)])))
                   [(host connected_4321 [] [], [(''forcelocal'', PBool True)])]))
   \<and> (\<exists>cmd. generate_stop_cmd (host [] [] [])
                (starts (fst (snd (start (host connected_4321 [] []) fresh
                                     [(''onlyCommand'', PBool True)])))
                   [(host connected_4321 [] [], [(''forcelocal'', PBool True)])]) = Inr cmd
             \<and> PStr ''-onlyCommand'' \<in> set cmd)"
proof -
  have h1: "map_of (options fresh) ''onlyCommand'' \<noteq> None
            \<or> map_of [(''onlyCommand'', PBool True)] ''onlyCommand'' \<noteq> None"
    by simp
  have h2: "distinct (map fst [(''onlyCommand'', PBool True)])
            \<and> map_of [(''onlyCommand'', PBool True)] ''onlyCommand'' = Some (PBool True)
            \<and> list_all (\<lambda>(w', kwargs'). map_of kwargs' ''onlyCommand'' = None)
                 [(host connected_4321 [] [], [(''forcelocal'', PBool True)])]"
    by simp
  note t = only_command_key_kept [of fresh "[(''onlyCommand'', PBool True)]"
             "host connected_4321 [] []"
             "[(host connected_4321 [] [], [(''forcelocal'', PBool True)])]" "host [] [] []"]
  have c1: "map_of (options (fst (snd (start (host connected_4321 [] []) fresh
                                      [(''onlyCommand'', PBool True)])))) ''onlyCommand'' \<noteq> None"
    using t [THEN conjunct1] h1 by (rule mp)
  have c2: "PStr ''-onlyCommand''
       \<in> set (generate_cmd (host [] [] [])
                (starts (fst (snd (start (host connected_4321 [] []) fresh
                                     [(''onlyCommand'', PBool True)])))
                   [(host connected_4321 [] [], [(''forcelocal'', PBool True)])]))
   \<and> (\<exists>cmd. generate_stop_cmd (host [] [] [])
                (starts (fst (snd (start (host connected_4321 [] []) fresh
                                     [(''onlyCommand'', PBool True)])))
                   [(host connected_4321 [] [], [(''forcelocal'', PBool True)])]) = Inr cmd
             \<and> PStr ''-onlyCommand'' \<in> set cmd)"
    using t [THEN conjunct2] h2 by (rule mp)
  show ?thesis using h2 c1 c2 by simp
qed

end
